theory Spec2Isabelle
  imports Complex_Main "HOL-Library.Product_Lexorder"
begin

section \<open>Data model\<close>

text \<open>
  The tables of \<^verbatim>\<open>newsflow.models\<close> as records. Every model inherits from \<^verbatim>\<open>Base\<close> the
  columns \<^verbatim>\<open>id\<close> (integer primary key), \<^verbatim>\<open>created_at\<close> and \<^verbatim>\<open>updated_at\<close>. Python
  integers are \<^typ>\<open>int\<close>; a \<^verbatim>\<open>datetime\<close> is its number of microseconds since the epoch;
  a nullable column is an \<^typ>\<open>'a option\<close>. Field names carry a prefix for their table
  (\<open>f_\<close> feeds, \<open>e_\<close> feed_entries, \<open>s_\<close> subscriptions, \<open>r_\<close> sent_entries), since the
  tables share column names.
\<close>

type_synonym datetime = int

record feed =
  f_id :: int
  f_created_at :: datetime
  f_updated_at :: datetime
  f_url :: string
  f_title :: "string option"
  f_description :: "string option"
  f_site_url :: "string option"
  f_is_active :: bool
  f_error_count :: int
  f_last_error :: "string option"
  f_etag :: "string option"
  f_last_modified :: "string option"
  f_last_fetched_at :: "datetime option"
  f_last_successful_fetch_at :: "datetime option"

record feed_entry =
  e_id :: int
  e_created_at :: datetime
  e_updated_at :: datetime
  e_feed_id :: int
  e_guid :: string
  e_title :: string
  e_link :: string
  e_summary :: "string option"
  e_content :: "string option"
  e_author :: "string option"
  e_published_at :: "datetime option"
  e_image_url :: "string option"
  e_title_translated :: "string option"
  e_summary_translated :: "string option"
  e_translation_language :: "string option"
  e_is_sent :: bool

record subscription =
  s_id :: int
  s_created_at :: datetime
  s_updated_at :: datetime
  s_platform :: string
  s_platform_user_id :: string
  s_platform_channel_id :: string
  s_platform_guild_id :: "string option"
  s_feed_id :: int
  s_is_active :: bool
  s_translate :: bool
  s_target_language :: string
  s_show_summary :: bool
  s_show_image :: bool
  s_last_sent_at :: "datetime option"
  s_last_entry_guid :: "string option"

record sent_entry =
  r_id :: int
  r_created_at :: datetime
  r_updated_at :: datetime
  r_subscription_id :: int
  r_entry_id :: int
  r_sent_at :: datetime

text \<open>Python truthiness of an optional string: \<^verbatim>\<open>None\<close> and \<^verbatim>\<open>""\<close> are falsy.\<close>

definition truthy :: "string option \<Rightarrow> bool" where
  "truthy s = (case s of None \<Rightarrow> False | Some t \<Rightarrow> t \<noteq> [])"

section \<open>Feed.mark_success and Feed.mark_error\<close>

text \<open>
  \<^verbatim>\<open>models/feed.py\<close>. The methods mutate the object; the model returns the new record.
  \<open>now\<close> is the value of \<^verbatim>\<open>datetime.now(timezone.utc)\<close> read by the call. The argument
  \<^verbatim>\<open>error\<close> is optional because \<^verbatim>\<open>FeedService\<close> passes \<^verbatim>\<open>FetchResult.error\<close>, a
  \<^verbatim>\<open>str | None\<close>.
\<close>

definition mark_success :: "datetime \<Rightarrow> string option \<Rightarrow> string option \<Rightarrow> feed \<Rightarrow> feed" where
  "mark_success now etag last_modified f =
     (let f1 = f\<lparr>f_last_fetched_at := Some now,
                  f_last_successful_fetch_at := Some now,
                  f_error_count := 0,
                  f_last_error := None\<rparr>;
          f2 = (if truthy etag then f1\<lparr>f_etag := etag\<rparr> else f1)
      in (if truthy last_modified then f2\<lparr>f_last_modified := last_modified\<rparr> else f2))"

definition mark_error :: "datetime \<Rightarrow> string option \<Rightarrow> feed \<Rightarrow> feed" where
  "mark_error now error f =
     (let f1 = f\<lparr>f_last_fetched_at := Some now,
                  f_error_count := f_error_count f + 1,
                  f_last_error := error\<rparr>
      in (if f_error_count f1 \<ge> 10 then f1\<lparr>f_is_active := False\<rparr> else f1))"

text \<open>\<open>k\<close> consecutive failed fetches, the \<open>i\<close>-th with the clock reading and error of
  the \<open>i\<close>-th element of the list.\<close>

fun mark_errors :: "(datetime \<times> string option) list \<Rightarrow> feed \<Rightarrow> feed" where
  "mark_errors [] f = f"
| "mark_errors ((now, error) # rest) f = mark_errors rest (mark_error now error f)"

section \<open>The store\<close>

text \<open>
  The database session as a record of the four tables, each a list of rows in insertion
  order. A repository method that can raise returns \<open>(Inl exception, db)\<close> or
  \<open>(Inr value, db)\<close> together with the database it leaves behind. The exceptions
  modelled are those of the operations used: \<^verbatim>\<open>scalar_one_or_none\<close> raising on several
  rows, a unique index refusing an insert, and attribute access on \<^verbatim>\<open>None\<close>. Foreign keys
  are not enforced (the default embedded engine does not enforce them).
\<close>

datatype exn = MultipleResultsFound | IntegrityError | AttributeError | KeyError
  | OtherException string

record db =
  feeds :: "feed list"
  feed_entries :: "feed_entry list"
  subscriptions :: "subscription list"
  sent_entries :: "sent_entry list"

definition scalar_one_or_none :: "'a list \<Rightarrow> exn + 'a option" where
  "scalar_one_or_none rows =
     (case rows of [] \<Rightarrow> Inr None | [x] \<Rightarrow> Inr (Some x) | _ \<Rightarrow> Inl MultipleResultsFound)"

text \<open>The integer primary key given to a new row: one more than the largest in use.\<close>

definition next_id :: "int list \<Rightarrow> int" where
  "next_id ids = fold max ids 0 + 1"

subsection \<open>FeedRepository: feeds\<close>

definition get_feed_by_id :: "db \<Rightarrow> int \<Rightarrow> exn + feed option" where
  "get_feed_by_id d fid = scalar_one_or_none (filter (\<lambda>f. f_id f = fid) (feeds d))"

definition get_feed_by_url :: "db \<Rightarrow> string \<Rightarrow> exn + feed option" where
  "get_feed_by_url d url = scalar_one_or_none (filter (\<lambda>f. f_url f = url) (feeds d))"


definition create_feed ::
  "datetime \<Rightarrow> string \<Rightarrow> string option \<Rightarrow> string option \<Rightarrow> string option \<Rightarrow> db
     \<Rightarrow> (exn + feed) \<times> db" where
  "create_feed now url title description site_url d =
     (if url \<in> set (map f_url (feeds d)) then (Inl IntegrityError, d)
      else
        (let feed = \<lparr>f_id = next_id (map f_id (feeds d)), f_created_at = now,
                      f_updated_at = now, f_url = url, f_title = title,
                      f_description = description, f_site_url = site_url,
                      f_is_active = True, f_error_count = 0, f_last_error = None,
                      f_etag = None, f_last_modified = None, f_last_fetched_at = None,
                      f_last_successful_fetch_at = None\<rparr>
         in (Inr feed, d\<lparr>feeds := feeds d @ [feed]\<rparr>)))"

text \<open>The \<^verbatim>\<open>update_data\<close> dictionary of \<^verbatim>\<open>update_feed_metadata\<close>, applied to one row. The
  row's \<^verbatim>\<open>updated_at\<close> follows from the column's \<^verbatim>\<open>onupdate\<close>.\<close>

definition feed_metadata_values ::
  "datetime \<Rightarrow> string option \<Rightarrow> string option \<Rightarrow> string option \<Rightarrow> string option
     \<Rightarrow> feed \<Rightarrow> feed" where
  "feed_metadata_values now title description etag last_modified f =
     (let f1 = f\<lparr>f_last_fetched_at := Some now,
                  f_last_successful_fetch_at := Some now,
                  f_error_count := 0,
                  f_last_error := None\<rparr>;
          f2 = (if truthy title then f1\<lparr>f_title := title\<rparr> else f1);
          f3 = (if truthy description then f2\<lparr>f_description := description\<rparr> else f2);
          f4 = (if truthy etag then f3\<lparr>f_etag := etag\<rparr> else f3);
          f5 = (if truthy last_modified then f4\<lparr>f_last_modified := last_modified\<rparr> else f4)
      in f5\<lparr>f_updated_at := now\<rparr>)"

definition update_feed_metadata ::
  "datetime \<Rightarrow> int \<Rightarrow> string option \<Rightarrow> string option \<Rightarrow> string option \<Rightarrow> string option
     \<Rightarrow> db \<Rightarrow> db" where
  "update_feed_metadata now fid title description etag last_modified d =
     d\<lparr>feeds := map (\<lambda>f. if f_id f = fid
                            then feed_metadata_values now title description etag last_modified f
                            else f) (feeds d)\<rparr>"

definition mark_feed_error :: "datetime \<Rightarrow> int \<Rightarrow> string option \<Rightarrow> db \<Rightarrow> (exn + unit) \<times> db" where
  "mark_feed_error now fid error d =
     (case get_feed_by_id d fid of
        Inl e \<Rightarrow> (Inl e, d)
      | Inr None \<Rightarrow> (Inr (), d)
      | Inr (Some feed) \<Rightarrow>
          (Inr (), d\<lparr>feeds := map (\<lambda>f. if f_id f = fid
                                         then (mark_error now error f)\<lparr>f_updated_at := now\<rparr>
                                         else f) (feeds d)\<rparr>))"

subsection \<open>FeedRepository: entries\<close>

text \<open>The dictionary that \<^verbatim>\<open>FeedFetcher._parse_entry\<close> builds for one entry; it always has
  all eight keys.\<close>

record entry_data =
  d_guid :: string
  d_title :: string
  d_link :: string
  d_summary :: "string option"
  d_content :: "string option"
  d_author :: "string option"
  d_published_at :: "datetime option"
  d_image_url :: "string option"

definition get_entry_by_guid :: "db \<Rightarrow> int \<Rightarrow> string \<Rightarrow> exn + feed_entry option" where
  "get_entry_by_guid d fid guid =
     scalar_one_or_none (filter (\<lambda>e. e_feed_id e = fid \<and> e_guid e = guid) (feed_entries d))"

definition new_entry :: "datetime \<Rightarrow> int \<Rightarrow> int \<Rightarrow> entry_data \<Rightarrow> feed_entry" where
  "new_entry now eid fid data =
     \<lparr>e_id = eid, e_created_at = now, e_updated_at = now, e_feed_id = fid,
      e_guid = d_guid data, e_title = d_title data, e_link = d_link data,
      e_summary = d_summary data, e_content = d_content data, e_author = d_author data,
      e_published_at = d_published_at data, e_image_url = d_image_url data,
      e_title_translated = None, e_summary_translated = None,
      e_translation_language = None, e_is_sent = False\<rparr>"

definition create_entry :: "datetime \<Rightarrow> int \<Rightarrow> entry_data \<Rightarrow> db \<Rightarrow> (exn + feed_entry) \<times> db" where
  "create_entry now fid data d =
     (if \<exists>e \<in> set (feed_entries d). e_feed_id e = fid \<and> e_guid e = d_guid data
      then (Inl IntegrityError, d)
      else
        (let entry = new_entry now (next_id (map e_id (feed_entries d))) fid data
         in (Inr entry, d\<lparr>feed_entries := feed_entries d @ [entry]\<rparr>)))"

text \<open>The loop of \<^verbatim>\<open>create_entries_bulk\<close>, with the list \<^verbatim>\<open>created\<close> as accumulator.\<close>

fun create_entries_loop ::
  "datetime \<Rightarrow> int \<Rightarrow> entry_data list \<Rightarrow> feed_entry list \<Rightarrow> db
     \<Rightarrow> (exn + feed_entry list) \<times> db" where
  "create_entries_loop now fid [] created d = (Inr created, d)"
| "create_entries_loop now fid (data # rest) created d =
     (case get_entry_by_guid d fid (d_guid data) of
        Inl e \<Rightarrow> (Inl e, d)
      | Inr (Some existing) \<Rightarrow> create_entries_loop now fid rest created d
      | Inr None \<Rightarrow>
          (case create_entry now fid data d of
             (Inl e, d') \<Rightarrow> (Inl e, d')
           | (Inr entry, d') \<Rightarrow> create_entries_loop now fid rest (created @ [entry]) d'))"

definition create_entries_bulk ::
  "datetime \<Rightarrow> int \<Rightarrow> entry_data list \<Rightarrow> db \<Rightarrow> (exn + feed_entry list) \<times> db" where
  "create_entries_bulk now fid entries_data d = create_entries_loop now fid entries_data [] d"


subsection \<open>SubscriptionRepository\<close>

definition get_subscription_by_id :: "db \<Rightarrow> int \<Rightarrow> exn + subscription option" where
  "get_subscription_by_id d subscription_id =
     scalar_one_or_none (filter (\<lambda>s. s_id s = subscription_id) (subscriptions d))"

definition get_subscription :: "db \<Rightarrow> string \<Rightarrow> string \<Rightarrow> int \<Rightarrow> exn + subscription option" where
  "get_subscription d platform channel_id fid =
     scalar_one_or_none
       (filter (\<lambda>s. s_platform s = platform \<and> s_platform_channel_id s = channel_id
                     \<and> s_feed_id s = fid) (subscriptions d))"

definition get_channel_subscriptions :: "db \<Rightarrow> string \<Rightarrow> string \<Rightarrow> subscription list" where
  "get_channel_subscriptions d platform channel_id =
     filter (\<lambda>s. s_platform s = platform \<and> s_platform_channel_id s = channel_id
                  \<and> s_is_active s) (subscriptions d)"


definition create_subscription ::
  "datetime \<Rightarrow> string \<Rightarrow> string \<Rightarrow> string \<Rightarrow> int \<Rightarrow> string option \<Rightarrow> db
     \<Rightarrow> (exn + subscription) \<times> db" where
  "create_subscription now platform user_id channel_id fid guild_id d =
     (if \<exists>s \<in> set (subscriptions d). s_platform s = platform
            \<and> s_platform_channel_id s = channel_id \<and> s_feed_id s = fid
      then (Inl IntegrityError, d)
      else
        (let sub = \<lparr>s_id = next_id (map s_id (subscriptions d)), s_created_at = now,
                     s_updated_at = now, s_platform = platform, s_platform_user_id = user_id,
                     s_platform_channel_id = channel_id, s_platform_guild_id = guild_id,
                     s_feed_id = fid, s_is_active = True, s_translate = True,
                     s_target_language = ''zh-CN'', s_show_summary = True,
                     s_show_image = True, s_last_sent_at = None, s_last_entry_guid = None\<rparr>
         in (Inr sub, d\<lparr>subscriptions := subscriptions d @ [sub]\<rparr>)))"

definition get_or_create_subscription ::
  "datetime \<Rightarrow> string \<Rightarrow> string \<Rightarrow> string \<Rightarrow> int \<Rightarrow> string option \<Rightarrow> db
     \<Rightarrow> (exn + subscription \<times> bool) \<times> db" where
  "get_or_create_subscription now platform user_id channel_id fid guild_id d =
     (case get_subscription d platform channel_id fid of
        Inl e \<Rightarrow> (Inl e, d)
      | Inr (Some existing) \<Rightarrow>
          (if \<not> s_is_active existing
           then (let existing' = existing\<lparr>s_is_active := True, s_updated_at := now\<rparr>
                 in (Inr (existing', False),
                     d\<lparr>subscriptions := map (\<lambda>s. if s_id s = s_id existing then existing' else s)
                                              (subscriptions d)\<rparr>))
           else (Inr (existing, False), d))
      | Inr None \<Rightarrow>
          (case create_subscription now platform user_id channel_id fid guild_id d of
             (Inl e, d') \<Rightarrow> (Inl e, d')
           | (Inr sub, d') \<Rightarrow> (Inr (sub, True), d')))"

definition update_subscription_settings ::
  "datetime \<Rightarrow> int \<Rightarrow> bool option \<Rightarrow> string option \<Rightarrow> bool option \<Rightarrow> bool option \<Rightarrow> db \<Rightarrow> db" where
  "update_subscription_settings now subscription_id translate target_language
       show_summary show_image d =
     (if translate = None \<and> target_language = None \<and> show_summary = None \<and> show_image = None
      then d
      else d\<lparr>subscriptions := map (\<lambda>s. if s_id s = subscription_id
             then s\<lparr>s_translate := (case translate of None \<Rightarrow> s_translate s | Some v \<Rightarrow> v),
                    s_target_language :=
                      (case target_language of None \<Rightarrow> s_target_language s | Some v \<Rightarrow> v),
                    s_show_summary := (case show_summary of None \<Rightarrow> s_show_summary s | Some v \<Rightarrow> v),
                    s_show_image := (case show_image of None \<Rightarrow> s_show_image s | Some v \<Rightarrow> v),
                    s_updated_at := now\<rparr>
             else s) (subscriptions d)\<rparr>)"

definition count_channel_subscriptions :: "db \<Rightarrow> string \<Rightarrow> string \<Rightarrow> int" where
  "count_channel_subscriptions d platform channel_id =
     int (length (filter (\<lambda>s. s_platform s = platform \<and> s_platform_channel_id s = channel_id
                              \<and> s_is_active s) (subscriptions d)))"

subsection \<open>SubscriptionRepository: sent entries\<close>


text \<open>
  The ordering \<^verbatim>\<open>published_at.desc().nullslast()\<close> as a sort key: rows with a date before
  rows without, later dates first. The sort is stable, so rows with equal dates stay in
  table order, which is one of the orders the engine may return; \<^verbatim>\<open>LIMIT\<close> takes a
  row count, a natural number.
\<close>

definition published_desc_nullslast :: "feed_entry \<Rightarrow> nat \<times> int" where
  "published_desc_nullslast e =
     (case e_published_at e of None \<Rightarrow> (1, 0) | Some t \<Rightarrow> (0, - t))"

definition sent_entry_ids :: "db \<Rightarrow> int \<Rightarrow> int list" where
  "sent_entry_ids d subscription_id =
     map r_entry_id (filter (\<lambda>r. r_subscription_id r = subscription_id) (sent_entries d))"

definition get_unsent_entries_for_subscription :: "db \<Rightarrow> int \<Rightarrow> nat \<Rightarrow> exn + feed_entry list" where
  "get_unsent_entries_for_subscription d subscription_id limit =
     (case get_subscription_by_id d subscription_id of
        Inl e \<Rightarrow> Inl e
      | Inr None \<Rightarrow> Inr []
      | Inr (Some subscription) \<Rightarrow>
          Inr (take limit
                (sort_key published_desc_nullslast
                  (filter (\<lambda>e. e_feed_id e = s_feed_id subscription
                                \<and> e_id e \<notin> set (sent_entry_ids d subscription_id))
                          (feed_entries d)))))"

section \<open>The outside world\<close>

text \<open>
  Everything the engine awaits is a call into a world of type \<open>'w\<close>: it takes the world and
  returns its answer with the world after the call. The clocks are read from the world
  without changing it; time passes only across awaited calls. \<^verbatim>\<open>time.time()\<close> is a real
  number of seconds.
\<close>

datatype fetch_exn = TimeoutError | ClientError string | UnexpectedError string

record http_response =
  resp_status :: int
  resp_reason :: string
  resp_headers :: "string \<rightharpoonup> string"
  resp_text :: "fetch_exn + string"

text \<open>The result of \<^verbatim>\<open>feedparser.parse\<close> with \<^verbatim>\<open>_parse_entry\<close> already applied to each of
  its entries.\<close>

record parsed_feed =
  pf_bozo :: bool
  pf_bozo_exception :: string
  pf_entries :: "entry_data list"
  pf_title :: "string option"
  pf_description :: "string option"
  pf_link :: "string option"

record 'w env =
  utcnow :: "'w \<Rightarrow> datetime"
  time_time :: "'w \<Rightarrow> real"
  asyncio_sleep :: "'w \<Rightarrow> 'w"
  session_get :: "string \<Rightarrow> (string \<times> string) list \<Rightarrow> 'w \<Rightarrow> (fetch_exn + http_response) \<times> 'w"
  feedparser_parse :: "string \<Rightarrow> string \<Rightarrow> fetch_exn + parsed_feed"
  get_source_name :: "string \<Rightarrow> string \<Rightarrow> string"
  sha256_hexdigest :: "string \<Rightarrow> string"
  str_exn :: "exn \<Rightarrow> string"

subsection \<open>Formatting\<close>

fun str_nat :: "nat \<Rightarrow> string" where
  "str_nat n = (if n < 10 then [''0123456789'' ! n]
                else str_nat (n div 10) @ [''0123456789'' ! (n mod 10)])"

declare str_nat.simps [simp del]

definition str_int :: "int \<Rightarrow> string" where
  "str_int i = (if i < 0 then ''-'' @ str_nat (nat (- i)) else str_nat (nat i))"

definition str_opt :: "string option \<Rightarrow> string" where
  "str_opt s = (case s of None \<Rightarrow> ''None'' | Some t \<Rightarrow> t)"

text \<open>Python's \<^verbatim>\<open>a or b\<close> on an optional string and a string.\<close>

definition or_else :: "string option \<Rightarrow> string \<Rightarrow> string" where
  "or_else a b = (case a of None \<Rightarrow> b | Some t \<Rightarrow> if t = [] then b else t)"

section \<open>FeedFetcher\<close>

record fetch_result =
  fr_url :: string
  fr_success :: bool
  fr_entries :: "entry_data list"
  fr_etag :: "string option"
  fr_last_modified :: "string option"
  fr_feed_title :: "string option"
  fr_feed_description :: "string option"
  fr_feed_link :: "string option"
  fr_error :: "string option"
  fr_not_modified :: bool

definition FetchResult :: "string \<Rightarrow> bool \<Rightarrow> fetch_result" where
  "FetchResult url success =
     \<lparr>fr_url = url, fr_success = success, fr_entries = [], fr_etag = None,
      fr_last_modified = None, fr_feed_title = None, fr_feed_description = None,
      fr_feed_link = None, fr_error = None, fr_not_modified = False\<rparr>"

definition fetch_failure :: "string \<Rightarrow> fetch_exn \<Rightarrow> fetch_result" where
  "fetch_failure url e =
     (case e of
        TimeoutError \<Rightarrow> (FetchResult url False)\<lparr>fr_error := Some ''Request timeout''\<rparr>
      | ClientError m \<Rightarrow> (FetchResult url False)\<lparr>fr_error := Some (''Network error: '' @ m)\<rparr>
      | UnexpectedError m \<Rightarrow>
          (FetchResult url False)\<lparr>fr_error := Some (''Unexpected error: '' @ m)\<rparr>)"

definition conditional_headers :: "string option \<Rightarrow> string option \<Rightarrow> (string \<times> string) list" where
  "conditional_headers etag last_modified =
     (case etag of None \<Rightarrow> [] | Some t \<Rightarrow> if t = [] then [] else [(''If-None-Match'', t)])
     @ (case last_modified of None \<Rightarrow> []
        | Some t \<Rightarrow> if t = [] then [] else [(''If-Modified-Since'', t)])"

definition do_fetch ::
  "'w env \<Rightarrow> string \<Rightarrow> string option \<Rightarrow> string option \<Rightarrow> 'w \<Rightarrow> fetch_result \<times> 'w" where
  "do_fetch env url etag last_modified w =
     (case session_get env url (conditional_headers etag last_modified) w of
        (Inl e, w') \<Rightarrow> (fetch_failure url e, w')
      | (Inr response, w') \<Rightarrow>
          (if resp_status response = 304
           then ((FetchResult url True)\<lparr>fr_not_modified := True, fr_etag := etag,
                                          fr_last_modified := last_modified\<rparr>, w')
           else if resp_status response \<ge> 400
           then ((FetchResult url False)\<lparr>fr_error :=
                    Some (''HTTP '' @ str_int (resp_status response) @ '': ''
                          @ resp_reason response)\<rparr>, w')
           else
             (case resp_text response of
                Inl e \<Rightarrow> (fetch_failure url e, w')
              | Inr content \<Rightarrow>
                  (case feedparser_parse env content url of
                     Inl e \<Rightarrow> (fetch_failure url e, w')
                   | Inr feed \<Rightarrow>
                       (if pf_bozo feed \<and> pf_entries feed = []
                        then ((FetchResult url False)\<lparr>fr_error :=
                                 Some (''Parse error: '' @ pf_bozo_exception feed)\<rparr>, w')
                        else ((FetchResult url True)\<lparr>
                                 fr_entries := pf_entries feed,
                                 fr_etag := resp_headers response ''ETag'',
                                 fr_last_modified := resp_headers response ''Last-Modified'',
                                 fr_feed_title := pf_title feed,
                                 fr_feed_description := pf_description feed,
                                 fr_feed_link := pf_link feed\<rparr>, w'))))))"

definition fetch_feed ::
  "'w env \<Rightarrow> string \<Rightarrow> string option \<Rightarrow> string option \<Rightarrow> 'w \<Rightarrow> fetch_result \<times> 'w" where
  "fetch_feed env url etag last_modified w = do_fetch env url etag last_modified w"


section \<open>FeedService\<close>

record add_feed_result =
  afr_success :: bool
  afr_feed :: "feed option"
  afr_message :: string
  afr_entry_count :: int

record fetch_feed_result =
  ffr_success :: bool
  ffr_feed :: "feed option"
  ffr_new_entries :: "feed_entry list"
  ffr_message :: string

definition add_feed :: "'w env \<Rightarrow> string \<Rightarrow> db \<times> 'w \<Rightarrow> (exn + add_feed_result) \<times> db \<times> 'w" where
  "add_feed env url st =
     (case st of (d, w) \<Rightarrow>
      (case get_feed_by_url d url of
         Inl e \<Rightarrow> (Inl e, d, w)
       | Inr (Some existing) \<Rightarrow>
           (Inr \<lparr>afr_success = True, afr_feed = Some existing,
                 afr_message = ''Feed already exists'', afr_entry_count = 0\<rparr>, d, w)
       | Inr None \<Rightarrow>
           (case fetch_feed env url None None w of (result, w1) \<Rightarrow>
              if \<not> fr_success result
              then (Inr \<lparr>afr_success = False, afr_feed = None,
                         afr_message = ''Failed to fetch feed: '' @ str_opt (fr_error result),
                         afr_entry_count = 0\<rparr>, d, w1)
              else if fr_entries result = []
              then (Inr \<lparr>afr_success = False, afr_feed = None,
                         afr_message = ''Feed has no entries'', afr_entry_count = 0\<rparr>, d, w1)
              else
                (case create_feed (utcnow env w1) url (fr_feed_title result)
                        (fr_feed_description result) (fr_feed_link result) d of
                   (Inl e, d1) \<Rightarrow> (Inl e, d1, w1)
                 | (Inr feed, d1) \<Rightarrow>
                     (let d2 = update_feed_metadata (utcnow env w1) (f_id feed) None None
                                 (fr_etag result) (fr_last_modified result) d1
                      in (case create_entries_bulk (utcnow env w1) (f_id feed)
                                 (fr_entries result) d2 of
                            (Inl e, d3) \<Rightarrow> (Inl e, d3, w1)
                          | (Inr entries, d3) \<Rightarrow>
                              (Inr \<lparr>afr_success = True,
                                    afr_feed = Some (feed_metadata_values (utcnow env w1) None None
                                                 (fr_etag result) (fr_last_modified result) feed),
                                    afr_message = ''Feed added with ''
                                       @ str_int (int (length entries)) @ '' entries'',
                                    afr_entry_count = int (length entries)\<rparr>, d3, w1)))))))"

text \<open>The \<^verbatim>\<open>except Exception\<close> handler of \<^verbatim>\<open>fetch_and_store\<close>.\<close>

definition fetch_and_store_handler ::
  "'w env \<Rightarrow> feed \<Rightarrow> exn \<Rightarrow> db \<times> 'w \<Rightarrow> (exn + fetch_feed_result) \<times> db \<times> 'w" where
  "fetch_and_store_handler env feed e st =
     (case st of (d, w) \<Rightarrow>
      (case mark_feed_error (utcnow env w) (f_id feed) (Some (str_exn env e)) d of
         (Inl e2, d') \<Rightarrow> (Inl e2, d', w)
       | (Inr u, d') \<Rightarrow>
           (Inr \<lparr>ffr_success = False, ffr_feed = Some feed, ffr_new_entries = [],
                 ffr_message = ''Error: '' @ str_exn env e\<rparr>, d', w)))"

definition fetch_and_store ::
  "'w env \<Rightarrow> feed \<Rightarrow> db \<times> 'w \<Rightarrow> (exn + fetch_feed_result) \<times> db \<times> 'w" where
  "fetch_and_store env feed st =
     (case st of (d, w) \<Rightarrow>
      (case fetch_feed env (f_url feed) (f_etag feed) (f_last_modified feed) w of (result, w1) \<Rightarrow>
         if \<not> fr_success result
         then (case mark_feed_error (utcnow env w1) (f_id feed) (fr_error result) d of
                 (Inl e, d1) \<Rightarrow> fetch_and_store_handler env feed e (d1, w1)
               | (Inr u, d1) \<Rightarrow>
                   (Inr \<lparr>ffr_success = False, ffr_feed = Some feed, ffr_new_entries = [],
                         ffr_message = ''Fetch error: '' @ str_opt (fr_error result)\<rparr>, d1, w1))
         else if fr_not_modified result
         then (Inr \<lparr>ffr_success = True, ffr_feed = Some feed, ffr_new_entries = [],
                    ffr_message = ''Not modified''\<rparr>,
               update_feed_metadata (utcnow env w1) (f_id feed) None None None None d, w1)
         else
           (let d1 = update_feed_metadata (utcnow env w1) (f_id feed) (fr_feed_title result)
                       (fr_feed_description result) (fr_etag result) (fr_last_modified result) d
            in if fr_entries result \<noteq> []
               then (case create_entries_bulk (utcnow env w1) (f_id feed) (fr_entries result) d1 of
                       (Inl e, d2) \<Rightarrow> fetch_and_store_handler env feed e (d2, w1)
                     | (Inr new_entries, d2) \<Rightarrow>
                         (Inr \<lparr>ffr_success = True, ffr_feed = Some feed,
                               ffr_new_entries = new_entries,
                               ffr_message = str_int (int (length new_entries))
                                  @ '' new entries''\<rparr>, d2, w1))
               else (Inr \<lparr>ffr_success = True, ffr_feed = Some feed, ffr_new_entries = [],
                          ffr_message = ''No new entries''\<rparr>, d1, w1))))"



section \<open>MemoryCache\<close>

text \<open>
  \<^verbatim>\<open>services/cache.py\<close>. The \<^verbatim>\<open>OrderedDict\<close> is an association list, oldest item first.
  \<open>now\<close> is the reading of \<^verbatim>\<open>time.time()\<close>.
\<close>

record memory_cache =
  mc_max_size :: int
  mc_cache :: "(string \<times> string \<times> real option) list"

definition cache_del :: "string \<Rightarrow> (string \<times> 'a) list \<Rightarrow> (string \<times> 'a) list" where
  "cache_del key items = filter (\<lambda>kv. fst kv \<noteq> key) items"

text \<open>\<^verbatim>\<open>expires_at and time.time() > expires_at\<close>: \<^verbatim>\<open>None\<close> and \<^verbatim>\<open>0.0\<close> are falsy.\<close>

definition expired :: "real \<Rightarrow> real option \<Rightarrow> bool" where
  "expired now expires_at = (case expires_at of None \<Rightarrow> False | Some t \<Rightarrow> t \<noteq> 0 \<and> now > t)"

definition mc_get :: "real \<Rightarrow> string \<Rightarrow> memory_cache \<Rightarrow> string option \<times> memory_cache" where
  "mc_get now key c =
     (case map_of (mc_cache c) key of
        None \<Rightarrow> (None, c)
      | Some (v, expires_at) \<Rightarrow>
          if expired now expires_at
          then (None, c\<lparr>mc_cache := cache_del key (mc_cache c)\<rparr>)
          else (Some v, c\<lparr>mc_cache := cache_del key (mc_cache c) @ [(key, v, expires_at)]\<rparr>))"

text \<open>\<^verbatim>\<open>while len(self._cache) >= self.max_size: self._cache.popitem(last=False)\<close>;
  \<^verbatim>\<open>popitem\<close> on an empty dictionary raises \<^verbatim>\<open>KeyError\<close>.\<close>

fun evict :: "int \<Rightarrow> 'a list \<Rightarrow> exn + 'a list" where
  "evict max_size [] = (if 0 \<ge> max_size then Inl KeyError else Inr [])"
| "evict max_size (x # rest) =
     (if int (length (x # rest)) \<ge> max_size then evict max_size rest else Inr (x # rest))"

definition mc_set ::
  "real \<Rightarrow> string \<Rightarrow> string \<Rightarrow> int option \<Rightarrow> memory_cache \<Rightarrow> (exn + bool) \<times> memory_cache" where
  "mc_set now key v ttl c =
     (let expires_at = (case ttl of None \<Rightarrow> None
                        | Some t \<Rightarrow> if t = 0 then None else Some (now + real_of_int t))
      in (case evict (mc_max_size c) (cache_del key (mc_cache c)) of
            Inl e \<Rightarrow> (Inl e, c\<lparr>mc_cache := []\<rparr>)
          | Inr items \<Rightarrow> (Inr True, c\<lparr>mc_cache := items @ [(key, v, expires_at)]\<rparr>)))"

section \<open>TranslationService\<close>

record translation_result =
  tr_success :: bool
  tr_translated_text :: string
  tr_source_language :: "string option"
  tr_error :: "string option"
  tr_from_cache :: bool

record 'w provider =
  p_name :: string
  p_translate :: "string \<Rightarrow> string \<Rightarrow> string option \<Rightarrow> 'w \<Rightarrow> (exn + translation_result) \<times> 'w"

record 'w translation_service =
  ts_provider :: "'w provider"
  ts_cache :: "memory_cache option"
  ts_cache_ttl :: int

text \<open>\<^verbatim>\<open>str.strip()\<close> on the characters of a byte string: the ASCII white space.\<close>

definition py_isspace :: "char \<Rightarrow> bool" where
  "py_isspace c = (of_char c \<in> set [9, 10, 11, 12, 13, 28, 29, 30, 31, 32 :: nat])"

definition py_strip :: "string \<Rightarrow> string" where
  "py_strip s = rev (dropWhile py_isspace (rev (dropWhile py_isspace s)))"

definition cache_key :: "'w env \<Rightarrow> 'w translation_service \<Rightarrow> string \<Rightarrow> string \<Rightarrow> string" where
  "cache_key env ts text target_lang =
     ''trans:'' @ p_name (ts_provider ts) @ '':'' @ target_lang @ '':''
       @ take 16 (sha256_hexdigest env text)"

definition translate ::
  "'w env \<Rightarrow> 'w translation_service \<Rightarrow> string \<Rightarrow> string \<Rightarrow> string option \<Rightarrow> 'w
     \<Rightarrow> (exn + translation_result) \<times> 'w translation_service \<times> 'w" where
  "translate env ts text target_lang source_lang w =
     (if text = [] \<or> py_strip text = []
      then (Inr \<lparr>tr_success = True, tr_translated_text = [], tr_source_language = None,
                 tr_error = None, tr_from_cache = False\<rparr>, ts, w)
      else
        (case (case ts_cache ts of
                 None \<Rightarrow> (None, ts)
               | Some c \<Rightarrow>
                   (case mc_get (time_time env w) (cache_key env ts text target_lang) c of
                      (cached, c') \<Rightarrow> (cached, ts\<lparr>ts_cache := Some c'\<rparr>))) of
           (cached, ts1) \<Rightarrow>
             if truthy cached
             then (Inr \<lparr>tr_success = True, tr_translated_text = or_else cached [],
                        tr_source_language = None, tr_error = None, tr_from_cache = True\<rparr>,
                   ts1, w)
             else
               (case p_translate (ts_provider ts1) text target_lang source_lang w of
                  (Inl e, w1) \<Rightarrow> (Inl e, ts1, w1)
                | (Inr result, w1) \<Rightarrow>
                    (case ts_cache ts1 of
                       None \<Rightarrow> (Inr result, ts1, w1)
                     | Some c \<Rightarrow>
                         if tr_success result \<and> tr_translated_text result \<noteq> []
                         then (case mc_set (time_time env w1)
                                      (cache_key env ts1 text target_lang)
                                      (tr_translated_text result) (Some (ts_cache_ttl ts1)) c of
                                 (Inl e, c') \<Rightarrow> (Inl e, ts1\<lparr>ts_cache := Some c'\<rparr>, w1)
                               | (Inr ok, c') \<Rightarrow> (Inr result, ts1\<lparr>ts_cache := Some c'\<rparr>, w1))
                         else (Inr result, ts1, w1)))))"

section \<open>Dispatcher\<close>


record dispatch_result =
  feeds_fetched :: int
  new_entries :: int
  messages_sent :: int
  errors :: int













section \<open>SubscriptionService\<close>

record subscribe_result =
  sr_success :: bool
  sr_subscription :: "subscription option"
  sr_feed :: "feed option"
  sr_message :: string
  sr_is_new :: bool

definition subscribe ::
  "'w env \<Rightarrow> int \<Rightarrow> string \<Rightarrow> string \<Rightarrow> string \<Rightarrow> string \<Rightarrow> string option \<Rightarrow> db \<times> 'w
     \<Rightarrow> (exn + subscribe_result) \<times> db \<times> 'w" where
  "subscribe env max_feeds_per_channel platform user_id channel_id feed_url guild_id st =
     (case st of (d, w) \<Rightarrow>
      if max_feeds_per_channel > 0
         \<and> count_channel_subscriptions d platform channel_id \<ge> max_feeds_per_channel
      then (Inr \<lparr>sr_success = False, sr_subscription = None, sr_feed = None,
                 sr_message = ''Maximum feeds ('' @ str_int max_feeds_per_channel @ '') reached'',
                 sr_is_new = False\<rparr>, d, w)
      else
        (case add_feed env feed_url (d, w) of
           (Inl e, d1, w1) \<Rightarrow> (Inl e, d1, w1)
         | (Inr add_result, d1, w1) \<Rightarrow>
             if \<not> afr_success add_result
             then (Inr \<lparr>sr_success = False, sr_subscription = None, sr_feed = None,
                        sr_message = afr_message add_result, sr_is_new = False\<rparr>, d1, w1)
             else
               (case afr_feed add_result of
                  None \<Rightarrow> (Inl AttributeError, d1, w1)
                | Some feed \<Rightarrow>
                    (case get_or_create_subscription (utcnow env w1) platform user_id channel_id
                            (f_id feed) guild_id d1 of
                       (Inl e, d2) \<Rightarrow> (Inl e, d2, w1)
                     | (Inr (subscription, created), d2) \<Rightarrow>
                         if \<not> created
                         then (Inr \<lparr>sr_success = True, sr_subscription = Some subscription,
                                    sr_feed = Some feed,
                                    sr_message = ''Already subscribed to this feed'',
                                    sr_is_new = False\<rparr>, d2, w1)
                         else (Inr \<lparr>sr_success = True, sr_subscription = Some subscription,
                                    sr_feed = Some feed,
                                    sr_message = ''Subscribed to '' @ or_else (f_title feed) feed_url,
                                    sr_is_new = True\<rparr>, d2, w1)))))"

text \<open>\<^verbatim>\<open>sub.feed\<close>, the relationship loaded with the subscription: the feed row with the
  subscription's \<^verbatim>\<open>feed_id\<close>, or \<^verbatim>\<open>None\<close>.\<close>

definition sub_feed :: "db \<Rightarrow> subscription \<Rightarrow> feed option" where
  "sub_feed d sub = find (\<lambda>f. f_id f = s_feed_id sub) (feeds d)"

fun update_settings_loop ::
  "datetime \<Rightarrow> string option \<Rightarrow> bool option \<Rightarrow> string option \<Rightarrow> subscription list \<Rightarrow> db
     \<Rightarrow> (exn + unit) \<times> db" where
  "update_settings_loop now feed_url translate_flag target_language [] d = (Inr (), d)"
| "update_settings_loop now feed_url translate_flag target_language (sub # rest) d =
     (if truthy feed_url
      then (case sub_feed d sub of
              None \<Rightarrow> (Inl AttributeError, d)
            | Some feed \<Rightarrow>
                if Some (f_url feed) \<noteq> feed_url
                then update_settings_loop now feed_url translate_flag target_language rest d
                else update_settings_loop now feed_url translate_flag target_language rest
                       (update_subscription_settings now (s_id sub) translate_flag target_language
                          None None d))
      else update_settings_loop now feed_url translate_flag target_language rest
             (update_subscription_settings now (s_id sub) translate_flag target_language None None d))"

definition update_settings ::
  "datetime \<Rightarrow> string \<Rightarrow> string \<Rightarrow> string option \<Rightarrow> bool option \<Rightarrow> string option \<Rightarrow> db
     \<Rightarrow> (exn + bool) \<times> db" where
  "update_settings now platform channel_id feed_url translate_flag target_language d =
     (let subs = get_channel_subscriptions d platform channel_id
      in if subs = [] then (Inr False, d)
         else (case update_settings_loop now feed_url translate_flag target_language subs d of
                 (Inl e, d') \<Rightarrow> (Inl e, d')
               | (Inr u, d') \<Rightarrow> (Inr True, d')))"

section \<open>Properties of the feed error counter\<close>

lemma mark_error_count: "f_error_count (mark_error now error f) = f_error_count f + 1"
  by (simp add: mark_error_def Let_def)

lemma mark_errors_count:
  "f_error_count (mark_errors es f) = f_error_count f + int (length es)"
  by (induction es f rule: mark_errors.induct) (simp_all add: mark_error_count)

lemma mark_errors_snoc:
  "mark_errors (es @ [(now, error)]) f = mark_error now error (mark_errors es f)"
  by (induction es f rule: mark_errors.induct) simp_all

lemma mark_success_count: "f_error_count (mark_success now etag lm f) = 0"
  by (simp add: mark_success_def Let_def)

text \<open>
  Claim C4. Each \<^verbatim>\<open>mark_error\<close> adds one to \<^verbatim>\<open>error_count\<close> and records the error; when
  the count it leaves is at least 10 the feed is inactive; \<^verbatim>\<open>mark_success\<close> sets the count
  to 0 and clears \<^verbatim>\<open>last_error\<close>; hence any number of consecutive \<^verbatim>\<open>mark_error\<close> calls
  followed by one \<^verbatim>\<open>mark_success\<close> leaves \<^verbatim>\<open>error_count = 0\<close>.
\<close>

theorem feed_error_counter:
  "f_error_count (mark_error now error f) = f_error_count f + 1
   \<and> f_last_error (mark_error now error f) = error
   \<and> (f_error_count (mark_error now error f) \<ge> 10 \<longrightarrow> \<not> f_is_active (mark_error now error f))
   \<and> f_error_count (mark_success now' etag lm g) = 0
   \<and> f_last_error (mark_success now' etag lm g) = None
   \<and> f_error_count (mark_success now' etag lm (mark_errors es f)) = 0"
  by (simp add: mark_error_def mark_success_def Let_def)

definition example_feed :: feed where
  "example_feed = \<lparr>f_id = 1, f_created_at = 0, f_updated_at = 0,
     f_url = ''https://example.org/rss'', f_title = Some ''Example'', f_description = None,
     f_site_url = None, f_is_active = True, f_error_count = 9, f_last_error = Some ''HTTP 500: x'',
     f_etag = Some ''abc'', f_last_modified = None, f_last_fetched_at = Some 0,
     f_last_successful_fetch_at = None\<rparr>"

theorem feed_error_counter_witness:
  "f_is_active example_feed
   \<and> 10 \<le> f_error_count (mark_error 5 (Some ''HTTP 500: x'') example_feed)
   \<and> \<not> f_is_active (mark_error 5 (Some ''HTTP 500: x'') example_feed)
   \<and> f_error_count (mark_success 6 None None
         (mark_errors [(5, Some ''HTTP 500: x'')] example_feed)) = 0"
proof -
  have h: "10 \<le> f_error_count (mark_error 5 (Some ''HTTP 500: x'') example_feed)"
    by (simp add: mark_error_def example_feed_def)
  have a: "f_is_active example_feed"
    by (simp add: example_feed_def)
  from feed_error_counter [of 5 "Some ''HTTP 500: x''" example_feed 6 None None _
      "[(5, Some ''HTTP 500: x'')]"] h a
  show ?thesis by blast
qed


section \<open>Lookups by a unique key\<close>

lemma scalar_filter_distinct:
  "distinct (map k xs) \<Longrightarrow>
   scalar_one_or_none (filter (\<lambda>x. k x = v) xs) = Inr (find (\<lambda>x. k x = v) xs)"
proof (induction xs)
  case Nil
  then show ?case by (simp add: scalar_one_or_none_def)
next
  case (Cons a xs)
  show ?case
  proof (cases "k a = v")
    case True
    with Cons.prems have "filter (\<lambda>x. k x = v) xs = []"
      by (auto simp: filter_empty_conv image_iff)
    with True show ?thesis by (simp add: scalar_one_or_none_def)
  next
    case False
    with Cons show ?thesis by simp
  qed
qed

lemma find_key_member:
  "distinct (map k xs) \<Longrightarrow> x \<in> set xs \<Longrightarrow> find (\<lambda>y. k y = k x) xs = Some x"
  by (induction xs) (auto simp: rev_image_eqI)



section \<open>The dispatch query\<close>

text \<open>The order asked of the query, on the rows themselves: an entry with a date comes before
  one without, and of two dated entries the later comes first.\<close>

definition newest_first_nulls_last :: "feed_entry \<Rightarrow> feed_entry \<Rightarrow> bool" where
  "newest_first_nulls_last a b =
     (case e_published_at a of
        None \<Rightarrow> e_published_at b = None
      | Some x \<Rightarrow> (case e_published_at b of None \<Rightarrow> True | Some y \<Rightarrow> y \<le> x))"

lemma key_le_newest:
  "published_desc_nullslast a \<le> published_desc_nullslast b \<Longrightarrow> newest_first_nulls_last a b"
  by (auto simp: published_desc_nullslast_def newest_first_nulls_last_def less_eq_prod_def
           split: option.splits)

lemma sorted_newest:
  "sorted_wrt newest_first_nulls_last (take n (sort_key published_desc_nullslast xs))"
proof -
  have "sorted (map published_desc_nullslast (sort_key published_desc_nullslast xs))"
    by (rule sorted_sort_key)
  then have "sorted_wrt (\<lambda>a b. published_desc_nullslast a \<le> published_desc_nullslast b)
               (sort_key published_desc_nullslast xs)"
    by (simp add: sorted_map)
  then have "sorted_wrt newest_first_nulls_last (sort_key published_desc_nullslast xs)"
    by (rule sorted_wrt_mono_rel[rotated]) (simp add: key_le_newest)
  then show ?thesis by (rule sorted_wrt_take)
qed

text \<open>The rows of the subscription's feed that have no receipt for the subscription.\<close>

definition unsent_rows :: "db \<Rightarrow> subscription \<Rightarrow> feed_entry list" where
  "unsent_rows d sub =
     filter (\<lambda>e. e_feed_id e = s_feed_id sub
                  \<and> \<not> (\<exists>r \<in> set (sent_entries d).
                         r_subscription_id r = s_id sub \<and> r_entry_id r = e_id e))
            (feed_entries d)"

lemma sent_ids_iff:
  "x \<in> set (sent_entry_ids d sid) \<longleftrightarrow>
   (\<exists>r \<in> set (sent_entries d). r_subscription_id r = sid \<and> r_entry_id r = x)"
  by (auto simp: sent_entry_ids_def)

text \<open>
  Claim C7. For a subscription \<open>sub\<close> stored under a unique id and a limit \<open>K\<close>, the
  dispatch query returns \<open>min K n\<close> entries, where \<open>n\<close> is the number of entries of the
  subscription's feed without a receipt for it; every entry returned is such an entry; and
  the list is ordered by \<^verbatim>\<open>published_at\<close> descending with the undated entries last. For
  an id that no subscription has, the query returns the empty list.
\<close>

theorem unsent_query:
  "(distinct (map s_id (subscriptions d)) \<and> sub \<in> set (subscriptions d) \<longrightarrow>
      (\<exists>es. get_unsent_entries_for_subscription d (s_id sub) K = Inr es
           \<and> length es = min K (length (unsent_rows d sub))
           \<and> set es \<subseteq> set (unsent_rows d sub)
           \<and> sorted_wrt newest_first_nulls_last es))
   \<and> (sid \<notin> set (map s_id (subscriptions d)) \<longrightarrow>
        get_unsent_entries_for_subscription d sid K = Inr [])"
proof (intro conjI impI)
  assume a: "distinct (map s_id (subscriptions d)) \<and> sub \<in> set (subscriptions d)"
  then have g: "get_subscription_by_id d (s_id sub) = Inr (Some sub)"
    by (simp add: get_subscription_by_id_def scalar_filter_distinct find_key_member)
  let ?rows = "filter (\<lambda>e. e_feed_id e = s_feed_id sub
                  \<and> e_id e \<notin> set (sent_entry_ids d (s_id sub))) (feed_entries d)"
  have r: "?rows = unsent_rows d sub"
    by (simp add: unsent_rows_def sent_ids_iff)
  have q: "get_unsent_entries_for_subscription d (s_id sub) K
             = Inr (take K (sort_key published_desc_nullslast (unsent_rows d sub)))"
    unfolding get_unsent_entries_for_subscription_def g r[symmetric] by simp
  show "\<exists>es. get_unsent_entries_for_subscription d (s_id sub) K = Inr es
           \<and> length es = min K (length (unsent_rows d sub))
           \<and> set es \<subseteq> set (unsent_rows d sub)
           \<and> sorted_wrt newest_first_nulls_last es"
    unfolding q using sorted_newest[of K "unsent_rows d sub"] set_take_subset[of K "sort_key published_desc_nullslast (unsent_rows d sub)"]
    by (auto simp: min.commute)
next
  assume "sid \<notin> set (map s_id (subscriptions d))"
  then have "filter (\<lambda>s. s_id s = sid) (subscriptions d) = []"
    by (auto simp: filter_empty_conv)
  then show "get_unsent_entries_for_subscription d sid K = Inr []"
    by (simp add: get_unsent_entries_for_subscription_def get_subscription_by_id_def
                  scalar_one_or_none_def)
qed

section \<open>Bulk insert\<close>

text \<open>The first occurrence of each guid of a batch that is not among the guids seen, in batch
  order: the batch as the specification wants it stored.\<close>

fun first_occurrences :: "string set \<Rightarrow> entry_data list \<Rightarrow> entry_data list" where
  "first_occurrences seen [] = []"
| "first_occurrences seen (x # xs) =
     (if d_guid x \<in> seen then first_occurrences seen xs
      else x # first_occurrences (insert (d_guid x) seen) xs)"

definition data_of :: "feed_entry \<Rightarrow> entry_data" where
  "data_of e = \<lparr>d_guid = e_guid e, d_title = e_title e, d_link = e_link e,
                d_summary = e_summary e, d_content = e_content e, d_author = e_author e,
                d_published_at = e_published_at e, d_image_url = e_image_url e\<rparr>"

definition stored_guids :: "db \<Rightarrow> int \<Rightarrow> string set" where
  "stored_guids d fid = set (map e_guid (filter (\<lambda>e. e_feed_id e = fid) (feed_entries d)))"

definition entry_key :: "feed_entry \<Rightarrow> int \<times> string" where
  "entry_key e = (e_feed_id e, e_guid e)"

lemma get_entry_by_guid_wf:
  assumes "distinct (map entry_key (feed_entries d))"
  shows "get_entry_by_guid d fid g = Inr (find (\<lambda>e. entry_key e = (fid, g)) (feed_entries d))"
proof -
  have "(\<lambda>e. e_feed_id e = fid \<and> e_guid e = g) = (\<lambda>e. entry_key e = (fid, g))"
    by (auto simp: entry_key_def)
  then show ?thesis
    using scalar_filter_distinct[OF assms, of "(fid, g)"] by (simp add: get_entry_by_guid_def)
qed

lemma find_entry_None:
  "find (\<lambda>e. entry_key e = (fid, g)) (feed_entries d) = None \<longleftrightarrow> g \<notin> stored_guids d fid"
  by (force simp: find_None_iff stored_guids_def entry_key_def)

lemma data_of_new_entry: "data_of (new_entry now eid fid x) = x"
  by (simp add: data_of_def new_entry_def)

lemma stored_guids_append:
  "stored_guids (d\<lparr>feed_entries := feed_entries d @ [new_entry now eid fid x]\<rparr>) fid
     = insert (d_guid x) (stored_guids d fid)"
  by (simp add: stored_guids_def new_entry_def)

lemma create_entries_loop_spec:
  assumes "distinct (map entry_key (feed_entries d))"
  shows "\<exists>new. create_entries_loop now fid batch created d
                 = (Inr (created @ new), d\<lparr>feed_entries := feed_entries d @ new\<rparr>)
            \<and> map data_of new = first_occurrences (stored_guids d fid) batch
            \<and> (\<forall>e \<in> set new. e_feed_id e = fid)
            \<and> distinct (map entry_key (feed_entries d @ new))"
  using assms
proof (induction batch arbitrary: created d)
  case Nil
  then show ?case by simp
next
  case (Cons x xs)
  note wf = Cons.prems
  show ?case
  proof (cases "d_guid x \<in> stored_guids d fid")
    case True
    then obtain ex where "find (\<lambda>e. entry_key e = (fid, d_guid x)) (feed_entries d) = Some ex"
      using find_entry_None[of fid "d_guid x" d] by (cases "find (\<lambda>e. entry_key e = (fid, d_guid x)) (feed_entries d)") auto
    then have g: "get_entry_by_guid d fid (d_guid x) = Inr (Some ex)"
      by (simp add: get_entry_by_guid_wf[OF wf])
    from Cons.IH[OF wf, of created] True g show ?thesis by simp
  next
    case False
    then have g: "get_entry_by_guid d fid (d_guid x) = Inr None"
      by (simp add: get_entry_by_guid_wf[OF wf] find_entry_None)
    let ?e = "new_entry now (next_id (map e_id (feed_entries d))) fid x"
    let ?d = "d\<lparr>feed_entries := feed_entries d @ [?e]\<rparr>"
    from False have nex: "\<not> (\<exists>e \<in> set (feed_entries d). e_feed_id e = fid \<and> e_guid e = d_guid x)"
      by (force simp: stored_guids_def)
    then have c: "create_entry now fid x d = (Inr ?e, ?d)"
      by (simp add: create_entry_def Let_def)
    have k: "entry_key ?e = (fid, d_guid x)"
      by (simp add: entry_key_def new_entry_def)
    from nex have "(fid, d_guid x) \<notin> entry_key ` set (feed_entries d)"
      by (auto simp: entry_key_def)
    with wf k have wf': "distinct (map entry_key (feed_entries ?d))"
      by simp
    from Cons.IH[OF wf', of "created @ [?e]"]
    obtain new where
      n1: "create_entries_loop now fid xs (created @ [?e]) ?d
             = (Inr ((created @ [?e]) @ new), ?d\<lparr>feed_entries := feed_entries ?d @ new\<rparr>)"
      and n2: "map data_of new = first_occurrences (stored_guids ?d fid) xs"
      and n3: "\<forall>e \<in> set new. e_feed_id e = fid"
      and n4: "distinct (map entry_key (feed_entries ?d @ new))"
      by blast
    have "create_entries_loop now fid (x # xs) created d
            = (Inr (created @ (?e # new)), d\<lparr>feed_entries := feed_entries d @ (?e # new)\<rparr>)"
      using g c n1 by simp
    moreover have "map data_of (?e # new) = first_occurrences (stored_guids d fid) (x # xs)"
      using False n2 by (simp add: data_of_new_entry stored_guids_append)
    moreover have "\<forall>e \<in> set (?e # new). e_feed_id e = fid"
      using n3 by (simp add: new_entry_def)
    moreover have "distinct (map entry_key (feed_entries d @ (?e # new)))"
      using n4 by simp
    ultimately show ?thesis by blast
  qed
qed

lemma first_occurrences_guids:
  "d_guid ` set (first_occurrences seen xs) = d_guid ` set xs - seen"
  by (induction xs arbitrary: seen) auto

lemma first_occurrences_distinct: "distinct (map d_guid (first_occurrences seen xs))"
proof (induction xs arbitrary: seen)
  case Nil then show ?case by simp
next
  case (Cons x xs)
  have "d_guid x \<notin> d_guid ` set (first_occurrences (insert (d_guid x) seen) xs)"
    by (simp add: first_occurrences_guids)
  with Cons show ?case by simp
qed

lemma first_occurrences_first:
  "x \<in> set (first_occurrences seen xs) \<Longrightarrow> find (\<lambda>y. d_guid y = d_guid x) xs = Some x"
proof (induction xs arbitrary: seen)
  case Nil then show ?case by simp
next
  case (Cons a xs)
  show ?case
  proof (cases "d_guid a \<in> seen")
    case True
    with Cons.prems have m: "x \<in> set (first_occurrences seen xs)" by simp
    then have "d_guid x \<in> d_guid ` set xs - seen"
      using first_occurrences_guids[of seen xs] by blast
    with True have "d_guid a \<noteq> d_guid x" by auto
    with Cons.IH[OF m] show ?thesis by simp
  next
    case False
    show ?thesis
    proof (cases "x = a")
      case True then show ?thesis by simp
    next
      case ne: False
      with False Cons.prems have m: "x \<in> set (first_occurrences (insert (d_guid a) seen) xs)"
        by simp
      then have "d_guid x \<in> d_guid ` set xs - insert (d_guid a) seen"
        using first_occurrences_guids[of "insert (d_guid a) seen" xs] by blast
      then have "d_guid a \<noteq> d_guid x" by auto
      with Cons.IH[OF m] show ?thesis by simp
    qed
  qed
qed

text \<open>
  Claim C3. When the stored entries are unique in \<^verbatim>\<open>(feed_id, guid)\<close>, bulk insert of any
  batch raises nothing, appends the list it returns to the entry table and changes nothing
  else. The entries returned are, in batch order, the first occurrence of every guid of the
  batch that the feed did not store: each has a guid that was not stored and the fields of
  the first batch element with that guid, every guid of the batch that was not stored is
  among them once, and the table stays unique in \<^verbatim>\<open>(feed_id, guid)\<close>.
\<close>

theorem bulk_insert_first_occurrences:
  assumes "distinct (map entry_key (feed_entries d))"
  shows "\<exists>created.
           create_entries_bulk now fid batch d
             = (Inr created, d\<lparr>feed_entries := feed_entries d @ created\<rparr>)
         \<and> map data_of created = first_occurrences (stored_guids d fid) batch
         \<and> (\<forall>e \<in> set created. e_feed_id e = fid
               \<and> e_guid e \<notin> stored_guids d fid
               \<and> find (\<lambda>y. d_guid y = e_guid e) batch = Some (data_of e))
         \<and> (\<forall>y \<in> set batch. d_guid y \<notin> stored_guids d fid \<longrightarrow> d_guid y \<in> e_guid ` set created)
         \<and> distinct (map e_guid created)
         \<and> distinct (map entry_key (feed_entries d @ created))"
proof -
  from create_entries_loop_spec[OF assms, of now fid batch "[]"]
  obtain new where
    n1: "create_entries_bulk now fid batch d = (Inr new, d\<lparr>feed_entries := feed_entries d @ new\<rparr>)"
    and n2: "map data_of new = first_occurrences (stored_guids d fid) batch"
    and n3: "\<forall>e \<in> set new. e_feed_id e = fid"
    and n4: "distinct (map entry_key (feed_entries d @ new))"
    by (auto simp: create_entries_bulk_def)
  have g: "e_guid e = d_guid (data_of e)" for e by (simp add: data_of_def)
  have s: "data_of ` set new = set (first_occurrences (stored_guids d fid) batch)"
    using n2 by (metis set_map)
  have m: "map e_guid new = map d_guid (first_occurrences (stored_guids d fid) batch)"
    using n2 by (metis (no_types, lifting) g map_map map_eq_conv o_apply)
  have a: "\<forall>e \<in> set new. e_guid e \<notin> stored_guids d fid
               \<and> find (\<lambda>y. d_guid y = e_guid e) batch = Some (data_of e)"
  proof
    fix e assume "e \<in> set new"
    then have i: "data_of e \<in> set (first_occurrences (stored_guids d fid) batch)"
      using s by blast
    then have "d_guid (data_of e) \<in> d_guid ` set batch - stored_guids d fid"
      using first_occurrences_guids[of "stored_guids d fid" batch] by blast
    with first_occurrences_first[OF i] show "e_guid e \<notin> stored_guids d fid
               \<and> find (\<lambda>y. d_guid y = e_guid e) batch = Some (data_of e)"
      by (simp add: g)
  qed
  have b: "\<forall>y \<in> set batch. d_guid y \<notin> stored_guids d fid \<longrightarrow> d_guid y \<in> e_guid ` set new"
  proof (intro ballI impI)
    fix y assume "y \<in> set batch" "d_guid y \<notin> stored_guids d fid"
    then have "d_guid y \<in> d_guid ` set (first_occurrences (stored_guids d fid) batch)"
      by (simp add: first_occurrences_guids)
    then show "d_guid y \<in> e_guid ` set new"
      using m by (metis set_map)
  qed
  have c: "distinct (map e_guid new)"
    by (simp add: m first_occurrences_distinct)
  from n1 n2 n3 n4 a b c show ?thesis by blast
qed

section \<open>The translation cache\<close>




section \<open>Conditional fetch, quota and settings\<close>

text \<open>What a metadata update without arguments does to a feed row.\<close>

definition touch_fetched :: "datetime \<Rightarrow> feed \<Rightarrow> feed" where
  "touch_fetched now f =
     f\<lparr>f_last_fetched_at := Some now, f_last_successful_fetch_at := Some now,
       f_error_count := 0, f_last_error := None, f_updated_at := now\<rparr>"

lemma feed_metadata_values_None:
  "feed_metadata_values now None None None None f = touch_fetched now f"
  by (simp add: feed_metadata_values_def touch_fetched_def truthy_def)

lemma do_fetch_304:
  assumes "session_get env url (conditional_headers etag lm) w = (Inr response, w1)"
    and "resp_status response = 304"
  shows "do_fetch env url etag lm w
           = ((FetchResult url True)\<lparr>fr_not_modified := True, fr_etag := etag,
                                      fr_last_modified := lm\<rparr>, w1)"
  using assms by (simp add: do_fetch_def)

text \<open>
  Claim C5. When the server answers 304 to the conditional request for a feed, the fetch
  result is a success with no entries, marked not modified, and carries the \<^verbatim>\<open>etag\<close> and
  \<^verbatim>\<open>last_modified\<close> it was given; \<^verbatim>\<open>fetch_and_store\<close> then succeeds with no new entries and
  changes, in the row of that feed only, the two fetch timestamps, the error count, the last
  error and the row's \<^verbatim>\<open>updated_at\<close>: the stored \<^verbatim>\<open>etag\<close> and \<^verbatim>\<open>last_modified\<close> of every
  feed are as before.
\<close>

theorem not_modified_keeps_validators:
  assumes get: "session_get env (f_url feed)
                  (conditional_headers (f_etag feed) (f_last_modified feed)) w = (Inr response, w1)"
    and st: "resp_status response = 304"
  shows "\<exists>res r d'.
           do_fetch env (f_url feed) (f_etag feed) (f_last_modified feed) w = (res, w1)
         \<and> fr_success res \<and> fr_entries res = [] \<and> fr_not_modified res
         \<and> fr_etag res = f_etag feed \<and> fr_last_modified res = f_last_modified feed
         \<and> fetch_and_store env feed (d, w) = (Inr r, d', w1)
         \<and> ffr_success r \<and> ffr_new_entries r = []
         \<and> d' = d\<lparr>feeds := map (\<lambda>f. if f_id f = f_id feed then touch_fetched (utcnow env w1) f
                                      else f) (feeds d)\<rparr>
         \<and> map f_etag (feeds d') = map f_etag (feeds d)
         \<and> map f_last_modified (feeds d') = map f_last_modified (feeds d)"
proof -
  let ?res = "(FetchResult (f_url feed) True)\<lparr>fr_not_modified := True, fr_etag := f_etag feed,
                                      fr_last_modified := f_last_modified feed\<rparr>"
  let ?d = "d\<lparr>feeds := map (\<lambda>f. if f_id f = f_id feed then touch_fetched (utcnow env w1) f
                                      else f) (feeds d)\<rparr>"
  have f: "do_fetch env (f_url feed) (f_etag feed) (f_last_modified feed) w = (?res, w1)"
    by (rule do_fetch_304[OF get st])
  have u: "update_feed_metadata (utcnow env w1) (f_id feed) None None None None d = ?d"
    by (simp add: update_feed_metadata_def feed_metadata_values_None)
  have s: "fetch_and_store env feed (d, w)
             = (Inr \<lparr>ffr_success = True, ffr_feed = Some feed, ffr_new_entries = [],
                     ffr_message = ''Not modified''\<rparr>, ?d, w1)"
    by (simp add: fetch_and_store_def fetch_feed_def f FetchResult_def u)
  have e: "map f_etag (feeds ?d) = map f_etag (feeds d)"
    by (simp add: touch_fetched_def comp_def if_distrib[of f_etag] cong: if_cong)
  have l: "map f_last_modified (feeds ?d) = map f_last_modified (feeds d)"
    by (simp add: touch_fetched_def comp_def if_distrib[of f_last_modified] cong: if_cong)
  show ?thesis
    using f s e l by (simp add: FetchResult_def)
qed

text \<open>
  Claim C8. With \<^verbatim>\<open>max_feeds_per_channel = N > 0\<close>, \<^verbatim>\<open>subscribe\<close> on a channel that has at
  least \<open>N\<close> active subscriptions returns \<^verbatim>\<open>success = False\<close> with the message
  \<^verbatim>\<open>Maximum feeds (N) reached\<close>, and leaves the database and the world as they were.
\<close>

theorem quota_refuses:
  assumes "0 < N" and "N \<le> count_channel_subscriptions d platform channel_id"
  shows "subscribe env N platform user_id channel_id feed_url guild_id (d, w)
           = (Inr \<lparr>sr_success = False, sr_subscription = None, sr_feed = None,
                   sr_message = ''Maximum feeds ('' @ str_int N @ '') reached'',
                   sr_is_new = False\<rparr>, d, w)"
  using assms by (simp add: subscribe_def)

definition sub_key :: "subscription \<Rightarrow> string \<times> string \<times> int" where
  "sub_key s = (s_platform s, s_platform_channel_id s, s_feed_id s)"

lemma get_feed_by_url_wf:
  "distinct (map f_url (feeds d)) \<Longrightarrow> f \<in> set (feeds d) \<Longrightarrow> get_feed_by_url d (f_url f) = Inr (Some f)"
  by (simp add: get_feed_by_url_def scalar_filter_distinct find_key_member)

lemma get_subscription_wf:
  assumes "distinct (map sub_key (subscriptions d))" and "s \<in> set (subscriptions d)"
  shows "get_subscription d (s_platform s) (s_platform_channel_id s) (s_feed_id s) = Inr (Some s)"
proof -
  have "(\<lambda>x. s_platform x = s_platform s \<and> s_platform_channel_id x = s_platform_channel_id s
              \<and> s_feed_id x = s_feed_id s) = (\<lambda>x. sub_key x = sub_key s)"
    by (auto simp: sub_key_def)
  then show ?thesis
    using assms by (simp add: get_subscription_def scalar_filter_distinct find_key_member)
qed

text \<open>
  Claim C10. The quota is checked before the subscription is looked up. Let a channel hold
  an active subscription \<open>s\<close> to the feed \<open>f\<close>, and let its number of active subscriptions
  equal the maximum \<open>N > 0\<close>: \<^verbatim>\<open>subscribe\<close> to the URL of \<open>f\<close> returns \<^verbatim>\<open>success = False\<close>.
  The same call under a maximum \<open>M\<close> that the channel has not reached (or \<open>M = 0\<close>, no
  quota) returns \<^verbatim>\<open>success = True\<close> with \<^verbatim>\<open>is_new = False\<close> and changes nothing.
\<close>

theorem quota_checked_before_lookup:
  assumes urls: "distinct (map f_url (feeds d))"
    and keys: "distinct (map sub_key (subscriptions d))"
    and f: "f \<in> set (feeds d)"
    and s: "s \<in> set (subscriptions d)" "s_feed_id s = f_id f" "s_is_active s"
    and full: "0 < N" "count_channel_subscriptions d (s_platform s) (s_platform_channel_id s) = N"
    and room: "\<not> (0 < M \<and> M \<le> count_channel_subscriptions d (s_platform s) (s_platform_channel_id s))"
  shows "subscribe env N (s_platform s) user_id (s_platform_channel_id s) (f_url f) guild_id (d, w)
           = (Inr \<lparr>sr_success = False, sr_subscription = None, sr_feed = None,
                   sr_message = ''Maximum feeds ('' @ str_int N @ '') reached'',
                   sr_is_new = False\<rparr>, d, w)
       \<and> subscribe env M (s_platform s) user_id (s_platform_channel_id s) (f_url f) guild_id (d, w)
           = (Inr \<lparr>sr_success = True, sr_subscription = Some s, sr_feed = Some f,
                   sr_message = ''Already subscribed to this feed'',
                   sr_is_new = False\<rparr>, d, w)"
proof
  show "subscribe env N (s_platform s) user_id (s_platform_channel_id s) (f_url f) guild_id (d, w)
           = (Inr \<lparr>sr_success = False, sr_subscription = None, sr_feed = None,
                   sr_message = ''Maximum feeds ('' @ str_int N @ '') reached'',
                   sr_is_new = False\<rparr>, d, w)"
    using full by (simp add: subscribe_def)
next
  have a: "add_feed env (f_url f) (d, w)
             = (Inr \<lparr>afr_success = True, afr_feed = Some f,
                 afr_message = ''Feed already exists'', afr_entry_count = 0\<rparr>, d, w)"
    by (simp add: add_feed_def get_feed_by_url_wf[OF urls f])
  have g: "get_or_create_subscription (utcnow env w) (s_platform s) user_id
             (s_platform_channel_id s) (f_id f) guild_id d = (Inr (s, False), d)"
    using get_subscription_wf[OF keys s(1)] s(2,3)
    by (simp add: get_or_create_subscription_def)
  show "subscribe env M (s_platform s) user_id (s_platform_channel_id s) (f_url f) guild_id (d, w)
           = (Inr \<lparr>sr_success = True, sr_subscription = Some s, sr_feed = Some f,
                   sr_message = ''Already subscribed to this feed'',
                   sr_is_new = False\<rparr>, d, w)"
    using room a g by (simp add: subscribe_def)
qed

lemma update_subscription_settings_feeds:
  "feeds (update_subscription_settings now sid a b c e d) = feeds d"
  by (simp add: update_subscription_settings_def)

lemma update_settings_loop_ok:
  assumes "\<forall>s \<in> set subs. find (\<lambda>f. f_id f = s_feed_id s) (feeds d) \<noteq> None"
  shows "\<exists>d'. update_settings_loop now feed_url tf lang subs d = (Inr (), d')
            \<and> feeds d' = feeds d
            \<and> (truthy feed_url
                 \<and> (\<forall>s \<in> set subs. \<forall>f. find (\<lambda>f. f_id f = s_feed_id s) (feeds d) = Some f
                        \<longrightarrow> Some (f_url f) \<noteq> feed_url) \<longrightarrow> d' = d)"
  using assms
proof (induction subs arbitrary: d)
  case Nil
  then show ?case by simp
next
  case (Cons s subs)
  from Cons.prems obtain f where f: "find (\<lambda>f. f_id f = s_feed_id s) (feeds d) = Some f"
    by auto
  let ?u = "update_subscription_settings now (s_id s) tf lang None None d"
  have pu: "\<forall>s \<in> set subs. find (\<lambda>f. f_id f = s_feed_id s) (feeds ?u) \<noteq> None"
    using Cons.prems by (simp add: update_subscription_settings_feeds)
  have pd: "\<forall>s \<in> set subs. find (\<lambda>f. f_id f = s_feed_id s) (feeds d) \<noteq> None"
    using Cons.prems by simp
  show ?case
  proof (cases "truthy feed_url \<and> Some (f_url f) \<noteq> feed_url")
    case True
    with Cons.IH[OF pd] f show ?thesis
      by (auto simp: sub_feed_def)
  next
    case False
    from Cons.IH[OF pu] obtain d' where
      l: "update_settings_loop now feed_url tf lang subs ?u = (Inr (), d')"
      and fe: "feeds d' = feeds ?u" by blast
    have "update_settings_loop now feed_url tf lang (s # subs) d = (Inr (), d')"
      using False f l by (auto simp: sub_feed_def)
    moreover have "feeds d' = feeds d"
      using fe by (simp add: update_subscription_settings_feeds)
    moreover have "\<not> (truthy feed_url
                 \<and> (\<forall>s' \<in> set (s # subs). \<forall>f. find (\<lambda>f. f_id f = s_feed_id s') (feeds d) = Some f
                        \<longrightarrow> Some (f_url f) \<noteq> feed_url))"
      using False f by auto
    ultimately show ?thesis by blast
  qed
qed

text \<open>
  Claim C9. When every active subscription of the channel has its feed row,
  \<^verbatim>\<open>update_settings\<close> returns \<^verbatim>\<open>True\<close> exactly when the channel has an active subscription.
  When \<^verbatim>\<open>feed_url\<close> is given and is the URL of none of their feeds, the database is left as
  it was, whatever the value returned.
\<close>

theorem update_settings_true_iff_subscribed:
  assumes "\<forall>s \<in> set (get_channel_subscriptions d platform channel_id). sub_feed d s \<noteq> None"
  shows "\<exists>d'. update_settings now platform channel_id feed_url tf lang d
                 = (Inr (get_channel_subscriptions d platform channel_id \<noteq> []), d')
            \<and> (truthy feed_url
                 \<and> (\<forall>s \<in> set (get_channel_subscriptions d platform channel_id).
                       \<forall>f. sub_feed d s = Some f \<longrightarrow> Some (f_url f) \<noteq> feed_url)
                 \<longrightarrow> d' = d)"
proof (cases "get_channel_subscriptions d platform channel_id = []")
  case True
  then show ?thesis by (simp add: update_settings_def)
next
  case False
  from update_settings_loop_ok[OF assms[unfolded sub_feed_def], of now feed_url tf lang]
  obtain d' where
    l: "update_settings_loop now feed_url tf lang (get_channel_subscriptions d platform channel_id) d
          = (Inr (), d')"
    and u: "truthy feed_url
                 \<and> (\<forall>s \<in> set (get_channel_subscriptions d platform channel_id).
                      \<forall>f. find (\<lambda>f. f_id f = s_feed_id s) (feeds d) = Some f
                        \<longrightarrow> Some (f_url f) \<noteq> feed_url) \<longrightarrow> d' = d"
    by blast
  have "update_settings now platform channel_id feed_url tf lang d = (Inr True, d')"
    using False l by (simp add: update_settings_def Let_def)
  with False u show ?thesis by (simp add: sub_feed_def)
qed

section \<open>Receipts and sends\<close>



















section \<open>The fetch phase and the table of receipts\<close>













section \<open>The unsent query under sending\<close>









lemma get_unsent_rows:
  assumes "distinct (map s_id (subscriptions d))" and "sub \<in> set (subscriptions d)"
  shows "get_unsent_entries_for_subscription d (s_id sub) K
           = Inr (take K (sort_key published_desc_nullslast (unsent_rows d sub)))"
proof -
  from assms have g: "get_subscription_by_id d (s_id sub) = Inr (Some sub)"
    by (simp add: get_subscription_by_id_def scalar_filter_distinct find_key_member)
  have r: "filter (\<lambda>e. e_feed_id e = s_feed_id sub
                  \<and> e_id e \<notin> set (sent_entry_ids d (s_id sub))) (feed_entries d)
             = unsent_rows d sub"
    by (simp add: unsent_rows_def sent_ids_iff)
  show ?thesis
    unfolding get_unsent_entries_for_subscription_def g r[symmetric] by simp
qed






section \<open>A small installation\<close>

definition ex_feed :: "int \<Rightarrow> string \<Rightarrow> feed" where
  "ex_feed fid url = \<lparr>f_id = fid, f_created_at = 0, f_updated_at = 0, f_url = url,
     f_title = Some ''Example'', f_description = None, f_site_url = None, f_is_active = True,
     f_error_count = 0, f_last_error = None, f_etag = Some ''v1'', f_last_modified = None,
     f_last_fetched_at = None, f_last_successful_fetch_at = None\<rparr>"

definition ex_data :: "string \<Rightarrow> datetime option \<Rightarrow> entry_data" where
  "ex_data guid published = \<lparr>d_guid = guid, d_title = ''Title '' @ guid,
     d_link = ''https://example.org/'' @ guid, d_summary = Some ''Summary'', d_content = None,
     d_author = None, d_published_at = published, d_image_url = None\<rparr>"

definition ex_sub :: "int \<Rightarrow> int \<Rightarrow> subscription" where
  "ex_sub sid fid = \<lparr>s_id = sid, s_created_at = 0, s_updated_at = 0, s_platform = ''discord'',
     s_platform_user_id = ''1'', s_platform_channel_id = ''42'', s_platform_guild_id = None,
     s_feed_id = fid, s_is_active = True, s_translate = False, s_target_language = ''zh-CN'',
     s_show_summary = True, s_show_image = True, s_last_sent_at = None,
     s_last_entry_guid = None\<rparr>"

definition example_db :: db where
  "example_db = \<lparr>
     feeds = [ex_feed 1 ''https://example.org/rss'', ex_feed 2 ''https://example.org/atom''],
     feed_entries = [new_entry 0 1 1 (ex_data ''a'' (Some 10)),
                     new_entry 0 2 1 (ex_data ''b'' None),
                     new_entry 0 3 1 (ex_data ''c'' (Some 30))],
     subscriptions = [ex_sub 1 1, ex_sub 2 2],
     sent_entries = [\<lparr>r_id = 1, r_created_at = 0, r_updated_at = 0, r_subscription_id = 1,
                      r_entry_id = 1, r_sent_at = 0\<rparr>]\<rparr>"

text \<open>A world that counts the calls made into it. The server answers the first request with
  a document of one entry and every later one with 304; the adapter delivers the entry
  \<open>c\<close> and refuses every other.\<close>

definition ex_response :: "int \<Rightarrow> http_response" where
  "ex_response status = \<lparr>resp_status = status, resp_reason = ''-'',
     resp_headers = [''ETag'' \<mapsto> ''v2''], resp_text = Inr ''<rss/>''\<rparr>"

definition example_env :: "nat env" where
  "example_env = \<lparr>utcnow = int, time_time = real, asyncio_sleep = Suc,
     session_get = (\<lambda>url headers w. (Inr (ex_response (if w = 0 then 200 else 304)), Suc w)),
     feedparser_parse = (\<lambda>content url. Inr \<lparr>pf_bozo = False, pf_bozo_exception = [],
        pf_entries = [ex_data ''d'' (Some 40)], pf_title = Some ''Example'',
        pf_description = None, pf_link = None\<rparr>),
     get_source_name = (\<lambda>url lang. ''Example''),
     sha256_hexdigest = (\<lambda>text. text),
     str_exn = (\<lambda>e. ''error'')\<rparr>"



lemmas ex_defs = example_db_def ex_feed_def ex_sub_def ex_data_def new_entry_def

section \<open>The claims on the small installation\<close>

theorem unsent_query_witness:
  "distinct (map s_id (subscriptions example_db))
   \<and> ex_sub 1 1 \<in> set (subscriptions example_db)
   \<and> 7 \<notin> set (map s_id (subscriptions example_db))
   \<and> (\<exists>es. get_unsent_entries_for_subscription example_db 1 2 = Inr es
          \<and> length es = 2 \<and> sorted_wrt newest_first_nulls_last es)
   \<and> get_unsent_entries_for_subscription example_db 7 2 = Inr []"
proof -
  have h1: "distinct (map s_id (subscriptions example_db)) \<and> ex_sub 1 1 \<in> set (subscriptions example_db)"
    by (simp add: ex_defs)
  have h2: "7 \<notin> set (map s_id (subscriptions example_db))"
    by (simp add: ex_defs)
  have n: "length (unsent_rows example_db (ex_sub 1 1)) = 2"
    by (simp add: unsent_rows_def ex_defs)
  have i: "s_id (ex_sub 1 1) = 1" by (simp add: ex_sub_def)
  from unsent_query [of example_db "ex_sub 1 1" 2 7] h1 h2 n i
  show ?thesis by auto
qed

theorem bulk_insert_first_occurrences_witness:
  "distinct (map entry_key (feed_entries example_db))
   \<and> (\<exists>created.
         create_entries_bulk 5 1 [ex_data ''a'' None, ex_data ''x'' None, ex_data ''x'' (Some 3)]
             example_db
           = (Inr created, example_db\<lparr>feed_entries := feed_entries example_db @ created\<rparr>)
       \<and> map data_of created = [ex_data ''x'' None])"
proof -
  let ?batch = "[ex_data ''a'' None, ex_data ''x'' None, ex_data ''x'' (Some 3)]"
  have h: "distinct (map entry_key (feed_entries example_db))"
    by (simp add: ex_defs entry_key_def)
  have s: "stored_guids example_db 1 = {''a'', ''b'', ''c''}"
    by (simp add: stored_guids_def ex_defs)
  have f: "first_occurrences {''a'', ''b'', ''c''} ?batch = [ex_data ''x'' None]"
    by (simp add: ex_data_def)
  from bulk_insert_first_occurrences [OF h, of 5 1 ?batch]
  obtain created where
    c: "create_entries_bulk 5 1 ?batch example_db
          = (Inr created, example_db\<lparr>feed_entries := feed_entries example_db @ created\<rparr>)"
    and m: "map data_of created = first_occurrences (stored_guids example_db 1) ?batch"
    by (elim exE conjE)
  from m have m': "map data_of created = [ex_data ''x'' None]"
    by (simp only: s f)
  show ?thesis
  proof (intro conjI exI)
    show "distinct (map entry_key (feed_entries example_db))" by (rule h)
    show "create_entries_bulk 5 1 ?batch example_db
          = (Inr created, example_db\<lparr>feed_entries := feed_entries example_db @ created\<rparr>)"
      by (rule c)
    show "map data_of created = [ex_data ''x'' None]" by (rule m')
  qed
qed


theorem not_modified_keeps_validators_witness:
  "session_get example_env (f_url (ex_feed 1 ''https://example.org/rss''))
      (conditional_headers (f_etag (ex_feed 1 ''https://example.org/rss''))
         (f_last_modified (ex_feed 1 ''https://example.org/rss''))) 1 = (Inr (ex_response 304), 2)
   \<and> resp_status (ex_response 304) = 304
   \<and> (\<exists>res r d'.
         do_fetch example_env ''https://example.org/rss'' (Some ''v1'') None 1 = (res, 2)
       \<and> fr_success res \<and> fr_entries res = [] \<and> fr_etag res = Some ''v1''
       \<and> fetch_and_store example_env (ex_feed 1 ''https://example.org/rss'') (example_db, 1)
            = (Inr r, d', 2)
       \<and> map f_etag (feeds d') = [Some ''v1'', Some ''v1''])"
proof -
  let ?f = "ex_feed 1 ''https://example.org/rss''"
  have g: "session_get example_env (f_url ?f)
      (conditional_headers (f_etag ?f) (f_last_modified ?f)) 1 = (Inr (ex_response 304), 2)"
    by (simp add: example_env_def)
  have s: "resp_status (ex_response 304) = 304" by (simp add: ex_response_def)
  have v: "f_url ?f = ''https://example.org/rss''" "f_etag ?f = Some ''v1''" "f_last_modified ?f = None"
    by (simp_all add: ex_feed_def)
  have e: "map f_etag (feeds example_db) = [Some ''v1'', Some ''v1'']"
    by (simp add: ex_defs)
  from not_modified_keeps_validators [OF g s, of example_db] g s e
  show ?thesis unfolding v by auto
qed

theorem quota_refuses_witness:
  "(0::int) < 2 \<and> 2 \<le> count_channel_subscriptions example_db ''discord'' ''42''
   \<and> subscribe example_env 2 ''discord'' ''7'' ''42'' ''https://example.org/new'' None (example_db, 0)
       = (Inr \<lparr>sr_success = False, sr_subscription = None, sr_feed = None,
               sr_message = ''Maximum feeds (2) reached'', sr_is_new = False\<rparr>, example_db, 0)"
proof -
  have h1: "(0::int) < 2" by simp
  have h2: "2 \<le> count_channel_subscriptions example_db ''discord'' ''42''"
    by (simp add: count_channel_subscriptions_def ex_defs)
  have m: "str_int 2 = ''2''"
    by (simp add: str_int_def str_nat.simps)
  from quota_refuses [OF h1 h2, of example_env "''7''" "''https://example.org/new''" None 0] h1 h2 m
  show ?thesis by simp
qed

theorem quota_checked_before_lookup_witness:
  "distinct (map f_url (feeds example_db))
   \<and> distinct (map sub_key (subscriptions example_db))
   \<and> ex_feed 1 ''https://example.org/rss'' \<in> set (feeds example_db)
   \<and> ex_sub 1 1 \<in> set (subscriptions example_db)
   \<and> s_is_active (ex_sub 1 1)
   \<and> count_channel_subscriptions example_db ''discord'' ''42'' = 2
   \<and> sr_success (projr (fst (subscribe example_env 2 ''discord'' ''7'' ''42''
                       ''https://example.org/rss'' None (example_db, 0)))) = False
   \<and> subscribe example_env 0 ''discord'' ''7'' ''42'' ''https://example.org/rss'' None (example_db, 0)
       = (Inr \<lparr>sr_success = True, sr_subscription = Some (ex_sub 1 1),
               sr_feed = Some (ex_feed 1 ''https://example.org/rss''),
               sr_message = ''Already subscribed to this feed'', sr_is_new = False\<rparr>,
          example_db, 0)"
proof -
  let ?f = "ex_feed 1 ''https://example.org/rss''"
  let ?s = "ex_sub 1 1"
  have urls: "distinct (map f_url (feeds example_db))" by (simp add: ex_defs)
  have keys: "distinct (map sub_key (subscriptions example_db))" by (simp add: ex_defs sub_key_def)
  have f: "?f \<in> set (feeds example_db)" by (simp add: ex_defs)
  have s: "?s \<in> set (subscriptions example_db)" "s_feed_id ?s = f_id ?f" "s_is_active ?s"
    by (simp_all add: ex_defs)
  have v: "s_platform ?s = ''discord''" "s_platform_channel_id ?s = ''42''"
    "f_url ?f = ''https://example.org/rss''"
    by (simp_all add: ex_defs)
  have cnt: "count_channel_subscriptions example_db ''discord'' ''42'' = 2"
    by (simp add: count_channel_subscriptions_def ex_defs)
  have full: "(0::int) < 2" "count_channel_subscriptions example_db (s_platform ?s)
                 (s_platform_channel_id ?s) = 2"
    using cnt by (simp_all add: v)
  have room: "\<not> ((0::int) < 0 \<and> 0 \<le> count_channel_subscriptions example_db (s_platform ?s)
                 (s_platform_channel_id ?s))"
    by simp
  from quota_checked_before_lookup [OF urls keys f s full room, of example_env "''7''" None 0]
    urls keys f s cnt
  show ?thesis unfolding v by simp
qed

theorem update_settings_true_iff_subscribed_witness:
  "get_channel_subscriptions example_db ''discord'' ''42'' = [ex_sub 1 1, ex_sub 2 2]
   \<and> sub_feed example_db (ex_sub 1 1) = Some (ex_feed 1 ''https://example.org/rss'')
   \<and> sub_feed example_db (ex_sub 2 2) = Some (ex_feed 2 ''https://example.org/atom'')
   \<and> truthy (Some ''https://example.org/none'')
   \<and> update_settings 9 ''discord'' ''42'' (Some ''https://example.org/none'') (Some False) None
        example_db = (Inr True, example_db)
   \<and> update_settings 9 ''discord'' ''43'' None (Some False) None example_db = (Inr False, example_db)"
proof -
  have subs: "get_channel_subscriptions example_db ''discord'' ''42'' = [ex_sub 1 1, ex_sub 2 2]"
    by (simp add: get_channel_subscriptions_def ex_defs)
  have sf: "sub_feed example_db (ex_sub 1 1) = Some (ex_feed 1 ''https://example.org/rss'')"
    "sub_feed example_db (ex_sub 2 2) = Some (ex_feed 2 ''https://example.org/atom'')"
    by (simp_all add: sub_feed_def ex_defs)
  have fk: "\<forall>s \<in> set (get_channel_subscriptions example_db ''discord'' ''42'').
              sub_feed example_db s \<noteq> None"
    by (simp add: subs sf)
  have t: "truthy (Some ''https://example.org/none'')" by (simp add: truthy_def)
  have nm: "\<forall>s \<in> set (get_channel_subscriptions example_db ''discord'' ''42'').
         \<forall>f. sub_feed example_db s = Some f \<longrightarrow> Some (f_url f) \<noteq> Some ''https://example.org/none''"
    by (simp add: subs sf ex_feed_def)
  have none: "get_channel_subscriptions example_db ''discord'' ''43'' = []"
    by (simp add: get_channel_subscriptions_def ex_defs)
  from update_settings_true_iff_subscribed [OF fk, of 9 "Some ''https://example.org/none''"
         "Some False" None] t nm subs
  have a: "update_settings 9 ''discord'' ''42'' (Some ''https://example.org/none'') (Some False) None
        example_db = (Inr True, example_db)" by auto
  have b: "update_settings 9 ''discord'' ''43'' None (Some False) None example_db
             = (Inr False, example_db)"
    by (simp add: update_settings_def none)
  from subs sf t a b show ?thesis by blast
qed


section \<open>Two cycles in a row\<close>









end
